theory Spec2Isabelle
  imports Complex_Main
begin

section \<open>JavaScript values\<close>

text \<open>
  The client modules (\<open>openai-compatible-client.js\<close>, \<open>ai-unified-client.js\<close>) are
  dynamically typed: a prompt, an options bag, a response body and a thrown error are all
  plain JavaScript values that the code inspects with \<open>typeof\<close>, \<open>Array.isArray\<close>,
  truthiness and property reads. The model keeps that: one type of values, objects as
  association lists (first binding of a key wins), finite numbers as exact rationals
  (every finite double is one) next to \<open>NaN\<close>. Strings are lists of code units below 256.
\<close>

datatype jsval =
    JUndefined
  | JNull
  | JBool bool
  | JNum rat
  | JNaN
  | JStr string
  | JArr "jsval list"
  | JObj "(string \<times> jsval) list"

text \<open>ToBoolean, as used by \<open>if\<close>, \<open>&&\<close>, \<open>||\<close> and \<open>!\<close>.\<close>

fun truthy :: "jsval \<Rightarrow> bool" where
  "truthy JUndefined = False"
| "truthy JNull = False"
| "truthy (JBool b) = b"
| "truthy (JNum r) = (r \<noteq> 0)"
| "truthy JNaN = False"
| "truthy (JStr s) = (s \<noteq> [])"
| "truthy (JArr xs) = True"
| "truthy (JObj kvs) = True"

text \<open>\<open>a || b\<close> on values that are already computed.\<close>

definition js_or :: "jsval \<Rightarrow> jsval \<Rightarrow> jsval" where
  "js_or a b = (if truthy a then a else b)"

text \<open>
  A default parameter \<open>options = {}\<close>: the empty object stands in when the argument is
  \<open>undefined\<close> (omitted); any other argument, \<open>null\<close> included, is taken as it is.
\<close>

definition default_options :: "jsval \<Rightarrow> jsval" where
  "default_options options = (case options of JUndefined \<Rightarrow> JObj [] | _ \<Rightarrow> options)"

subsection \<open>Thrown values\<close>

text \<open>
  A thrown value is a value; a computation that may throw returns \<open>jsval + 'a\<close> with the
  thrown value on the left. \<open>new Error(msg)\<close> and the engine's \<open>TypeError\<close> are objects
  whose readable properties are \<open>name\<close> and \<open>message\<close>; they carry no \<open>response\<close>,
  \<open>request\<close> or \<open>cause\<close>.
\<close>

definition mkError :: "string \<Rightarrow> jsval" where
  "mkError msg = JObj [(''name'', JStr ''Error''), (''message'', JStr msg)]"

definition mkTypeError :: "string \<Rightarrow> jsval" where
  "mkTypeError msg = JObj [(''name'', JStr ''TypeError''), (''message'', JStr msg)]"

definition thenE :: "jsval + 'a \<Rightarrow> ('a \<Rightarrow> jsval + 'b) \<Rightarrow> jsval + 'b" where
  "thenE r f = (case r of Inl e \<Rightarrow> Inl e | Inr v \<Rightarrow> f v)"

subsection \<open>Property reads\<close>

text \<open>
  \<open>v.key\<close>: reading a property of \<open>null\<close> or \<open>undefined\<close> throws a TypeError (the text is
  V8's); an object answers with its binding or \<open>undefined\<close>; strings and arrays have
  \<open>length\<close>; every other read in these modules (\<open>role\<close>, \<open>content\<close>, \<open>system\<close>,
  \<open>messages\<close>, \<open>data\<close>, \<open>choices\<close>, \<open>message\<close>, \<open>text\<close>, \<open>response\<close>, \<open>request\<close>,
  \<open>status\<close>, the option names) finds nothing on a primitive or an array.
\<close>

definition cannot_read :: "string \<Rightarrow> string \<Rightarrow> jsval" where
  "cannot_read what key =
     mkTypeError (''Cannot read properties of '' @ what @ '' (reading '' @ [CHR 0x27] @ key @ [CHR 0x27] @ '')'')"

definition getprop :: "jsval \<Rightarrow> string \<Rightarrow> jsval + jsval" where
  "getprop v key =
     (case v of
        JUndefined \<Rightarrow> Inl (cannot_read ''undefined'' key)
      | JNull \<Rightarrow> Inl (cannot_read ''null'' key)
      | JObj kvs \<Rightarrow> (case map_of kvs key of None \<Rightarrow> Inr JUndefined | Some x \<Rightarrow> Inr x)
      | JArr xs \<Rightarrow> Inr (if key = ''length'' then JNum (of_nat (length xs)) else JUndefined)
      | JStr s \<Rightarrow> Inr (if key = ''length'' then JNum (of_nat (length s)) else JUndefined)
      | _ \<Rightarrow> Inr JUndefined)"

text \<open>\<open>v[0]\<close>.\<close>

definition index0 :: "jsval \<Rightarrow> jsval + jsval" where
  "index0 v =
     (case v of
        JUndefined \<Rightarrow> Inl (cannot_read ''undefined'' ''0'')
      | JNull \<Rightarrow> Inl (cannot_read ''null'' ''0'')
      | JObj kvs \<Rightarrow> (case map_of kvs ''0'' of None \<Rightarrow> Inr JUndefined | Some x \<Rightarrow> Inr x)
      | JArr xs \<Rightarrow> Inr (case xs of [] \<Rightarrow> JUndefined | x # _ \<Rightarrow> x)
      | JStr s \<Rightarrow> Inr (case s of [] \<Rightarrow> JUndefined | c # _ \<Rightarrow> JStr [c])
      | _ \<Rightarrow> Inr JUndefined)"

text \<open>\<open>v.a && v.b\<close>: the second property is read only when the first is truthy.\<close>

definition both_props :: "jsval \<Rightarrow> string \<Rightarrow> string \<Rightarrow> jsval + jsval" where
  "both_props v a b =
     thenE (getprop v a) (\<lambda>x. if truthy x then getprop v b else Inr x)"

subsection \<open>Built-ins of the runtime\<close>

text \<open>
  The conversions between numbers and text (\<open>parseInt\<close>, \<open>parseFloat\<close>,
  \<open>JSON.stringify\<close>, the string conversion of a template literal, the numeric conversion
  of a relational operator) belong to the JavaScript engine, not to the repository. The
  model takes them as a parameter; every universal theorem below holds for any engine.
\<close>

record runtime =
  parseInt :: "string \<Rightarrow> jsval"
  parseFloat :: "string \<Rightarrow> jsval"
  JSON_stringify :: "jsval \<Rightarrow> jsval"
  ToString :: "jsval \<Rightarrow> string"
  ToNumber :: "jsval \<Rightarrow> jsval"

section \<open>convertToOpenAIMessages\<close>

definition message :: "string \<Rightarrow> jsval \<Rightarrow> jsval" where
  "message r c = JObj [(''role'', JStr r), (''content'', c)]"

text \<open>
  \<open>messages.map((message, index) => ({role: index % 2 === 0 ? 'user' : 'assistant',
  content: message}))\<close>, with the index of the first element as argument.
\<close>

fun alternate :: "nat \<Rightarrow> jsval list \<Rightarrow> jsval list" where
  "alternate i [] = []"
| "alternate i (m # ms) =
     message (if i mod 2 = 0 then ''user'' else ''assistant'') m # alternate (Suc i) ms"

text \<open>
  The \<open>forEach\<close> over \<open>messages.messages\<close>: an element with truthy \<open>role\<close> and
  \<open>content\<close> is pushed with \<open>human\<close> renamed to \<open>user\<close>, any other element is skipped,
  and reading \<open>role\<close> of a \<open>null\<close> element throws.
\<close>

fun convertInner :: "jsval list \<Rightarrow> jsval + jsval list" where
  "convertInner [] = Inr []"
| "convertInner (msg # rest) =
     thenE (both_props msg ''role'' ''content'') (\<lambda>c.
       if truthy c then
         thenE (getprop msg ''role'') (\<lambda>r.
         thenE (getprop msg ''content'') (\<lambda>content.
         thenE (convertInner rest) (\<lambda>out.
           Inr (JObj [(''role'',
                       if r = JStr ''human'' then JStr ''user''
                       else if r = JStr ''assistant'' then JStr ''assistant''
                       else r),
                      (''content'', content)] # out))))
       else convertInner rest)"

definition convertToOpenAIMessages :: "runtime \<Rightarrow> jsval \<Rightarrow> jsval + jsval" where
  "convertToOpenAIMessages rt messages =
     (case messages of
        JStr s \<Rightarrow> Inr (JArr [message ''user'' messages])
      | JArr xs \<Rightarrow>
          thenE (case xs of [] \<Rightarrow> Inr (JBool False)
                 | m0 # _ \<Rightarrow> both_props m0 ''role'' ''content'') (\<lambda>c.
            if truthy c then Inr messages
            else Inr (JArr (alternate 0 xs)))
      | _ \<Rightarrow>
          thenE (both_props messages ''role'' ''content'') (\<lambda>c.
            if truthy c then Inr (JArr [messages])
            else
              thenE (both_props messages ''system'' ''messages'') (\<lambda>c2.
                if truthy c2 then
                  thenE (getprop messages ''system'') (\<lambda>sys.
                  thenE (getprop messages ''messages'') (\<lambda>inner.
                  thenE (case inner of JArr ms \<Rightarrow> convertInner ms | _ \<Rightarrow> Inr []) (\<lambda>out.
                    Inr (JArr ((if truthy sys then [message ''system'' sys] else []) @ out)))))
                else Inr (JArr [message ''user'' (JSON_stringify rt messages)]))))"

section \<open>Strings\<close>

text \<open>\<open>s.includes(sub)\<close>: \<open>sub\<close> occurs in \<open>s\<close> as a contiguous run.\<close>

fun starts_with :: "string \<Rightarrow> string \<Rightarrow> bool" where
  "starts_with s [] = True"
| "starts_with [] (p # ps) = False"
| "starts_with (c # cs) (p # ps) = (c = p \<and> starts_with cs ps)"

fun js_includes :: "string \<Rightarrow> string \<Rightarrow> bool" where
  "js_includes [] sub = (sub = [])"
| "js_includes (c # cs) sub = (starts_with (c # cs) sub \<or> js_includes cs sub)"

text \<open>
  \<open>s.trim()\<close> strips white space and line terminators from both ends; below 256 these
  are TAB, LF, VT, FF, CR, SPACE and NBSP.
\<close>

definition is_ws :: "char \<Rightarrow> bool" where
  "is_ws c = (c = CHR 0x09 \<or> c = CHR 0x0A \<or> c = CHR 0x0B \<or> c = CHR 0x0C \<or> c = CHR 0x0D
              \<or> c = CHR 0x20 \<or> c = CHR 0xA0)"

definition trim :: "string \<Rightarrow> string" where
  "trim s = rev (dropWhile is_ws (rev (dropWhile is_ws s)))"

text \<open>Decimal digits of a natural number.\<close>

function nat_digits :: "nat \<Rightarrow> string" where
  "nat_digits n =
     (if n < 10 then [''0123456789'' ! n]
      else nat_digits (n div 10) @ [''0123456789'' ! (n mod 10)])"
  by pat_completeness auto
termination
  by (relation "measure id") auto

declare nat_digits.simps [simp del]

text \<open>
  \<open>`${v}`\<close>: the text a template literal inserts for a value. A string is itself; an
  integer below \<open>10^21\<close> in magnitude is printed in plain decimal; the conversion of any
  other number, of an array and of an object is the engine's.
\<close>

definition tmpl :: "runtime \<Rightarrow> jsval \<Rightarrow> string" where
  "tmpl rt v =
     (case v of
        JStr s \<Rightarrow> s
      | JUndefined \<Rightarrow> ''undefined''
      | JNull \<Rightarrow> ''null''
      | JBool b \<Rightarrow> (if b then ''true'' else ''false'')
      | JNaN \<Rightarrow> ''NaN''
      | JNum r \<Rightarrow>
          (if of_int \<lfloor>r\<rfloor> = r \<and> \<bar>r\<bar> < 10 ^ 21
           then (if r < 0 then ''-'' else []) @ nat_digits (nat \<bar>\<lfloor>r\<rfloor>\<bar>)
           else ToString rt v)
      | _ \<Rightarrow> ToString rt v)"

text \<open>\<open>v > 0\<close>.\<close>

definition gt_zero :: "runtime \<Rightarrow> jsval \<Rightarrow> bool" where
  "gt_zero rt v =
     (case v of
        JNum r \<Rightarrow> r > 0
      | JNaN \<Rightarrow> False
      | JUndefined \<Rightarrow> False
      | JNull \<Rightarrow> False
      | JBool b \<Rightarrow> b
      | _ \<Rightarrow> (case ToNumber rt v of JNum r \<Rightarrow> r > 0 | _ \<Rightarrow> False))"

section \<open>Configuration, log and transport\<close>

text \<open>\<open>process.env\<close>: each variable is a string or is unset.\<close>

record env =
  OPENAI_API_BASE_URL :: "string option"
  OPENAI_API_KEY :: "string option"
  MODEL :: "string option"
  MAX_TOKENS :: "string option"
  TEMPERATURE :: "string option"
  ANTHROPIC_API_KEY :: "string option"
  AI_PROVIDER :: "string option"

definition envval :: "string option \<Rightarrow> jsval" where
  "envval x = (case x of None \<Rightarrow> JUndefined | Some s \<Rightarrow> JStr s)"

text \<open>\<open>process.env.X || dflt\<close>, and \<open>`${process.env.X}`\<close>.\<close>

definition env_or :: "string option \<Rightarrow> string \<Rightarrow> string" where
  "env_or x dflt = (case x of None \<Rightarrow> dflt | Some s \<Rightarrow> (if s \<noteq> [] then s else dflt))"

definition env_text :: "string option \<Rightarrow> string" where
  "env_text x = (case x of None \<Rightarrow> ''undefined'' | Some s \<Rightarrow> s)"

text \<open>\<open>log(level, text)\<close> of \<open>utils.js\<close> appends a line; the lines written are returned.\<close>

type_synonym log_entry = "string \<times> string"

text \<open>
  A network call either resolves with a response or rejects with an error value. The two
  services are parameters: \<open>post\<close> for the axios instance, \<open>create\<close> for
  \<open>client.messages.create\<close> of the Anthropic SDK.
\<close>

datatype outcome = Resolve jsval | Reject jsval

record axios_client =
  baseURL :: string
  headers :: "(string \<times> string) list"

record anthropic_client =
  apiKey :: string
  defaultHeaders :: "(string \<times> string) list"

type_synonym post_fn = "axios_client \<Rightarrow> string \<Rightarrow> jsval \<Rightarrow> outcome"
type_synonym create_fn = "anthropic_client \<Rightarrow> jsval \<Rightarrow> outcome"

section \<open>The OpenAI-compatible client\<close>

definition getOpenAICompatibleConfig :: "env \<Rightarrow> jsval + (string \<times> string)" where
  "getOpenAICompatibleConfig e =
     (if \<not> truthy (envval (OPENAI_API_BASE_URL e))
      then Inl (mkError ''OPENAI_API_BASE_URL environment variable is missing. Set it to use OpenAI compatible API (e.g., http://localhost:11434/v1).'')
      else Inr (env_text (OPENAI_API_BASE_URL e), env_or (OPENAI_API_KEY e) ''not-needed''))"

definition createOpenAICompatibleClient :: "env \<Rightarrow> jsval + axios_client" where
  "createOpenAICompatibleClient e =
     thenE (getOpenAICompatibleConfig e) (\<lambda>(url, key).
       Inr \<lparr> baseURL = url,
             headers = (''Content-Type'', ''application/json'') #
                       (if key \<noteq> [] \<and> key \<noteq> ''not-needed''
                        then [(''Authorization'', ''Bearer '' @ key)] else []) \<rparr>)"

text \<open>The request payload of lines 64 to 69.\<close>

definition openAIPayload :: "runtime \<Rightarrow> env \<Rightarrow> jsval \<Rightarrow> jsval \<Rightarrow> jsval + jsval" where
  "openAIPayload rt e messages options =
     thenE (getprop options ''model'') (\<lambda>m.
     thenE (getprop options ''maxTokens'') (\<lambda>mt.
     thenE (getprop options ''temperature'') (\<lambda>t.
       Inr (JObj [(''model'', js_or m (envval (MODEL e))),
                  (''messages'', messages),
                  (''max_tokens'', js_or mt (parseInt rt (env_or (MAX_TOKENS e) ''64000''))),
                  (''temperature'', js_or t (parseFloat rt (env_or (TEMPERATURE e) ''0.2'')))]))))"

text \<open>
  The condition of lines 77 to 81, a chain of \<open>&&\<close>: its value is the first falsy
  operand, or the last operand when all are truthy; a read on \<open>null\<close> or
  \<open>undefined\<close> throws.
\<close>

definition shapeTest :: "runtime \<Rightarrow> jsval \<Rightarrow> jsval + jsval" where
  "shapeTest rt response =
     thenE (getprop response ''data'') (\<lambda>data.
       if \<not> truthy data then Inr data else
     thenE (getprop data ''choices'') (\<lambda>choices.
       if \<not> truthy choices then Inr choices else
     thenE (getprop choices ''length'') (\<lambda>len.
       if \<not> gt_zero rt len then Inr (JBool False) else
     thenE (index0 choices) (\<lambda>c0.
     thenE (getprop c0 ''message'') (\<lambda>msg.
       if \<not> truthy msg then Inr msg else
     getprop msg ''content'')))))"

text \<open>The expression \<open>response.data.choices[0].message.content\<close>.\<close>

definition content_path :: "jsval \<Rightarrow> jsval + jsval" where
  "content_path response =
     thenE (getprop response ''data'') (\<lambda>data.
     thenE (getprop data ''choices'') (\<lambda>choices.
     thenE (index0 choices) (\<lambda>c0.
     thenE (getprop c0 ''message'') (\<lambda>msg. getprop msg ''content''))))"

text \<open>
  Lines 77 to 85: when the condition holds, the content, trimmed (calling \<open>trim\<close> on
  anything but a string throws); otherwise \<open>Unexpected API response format\<close> is thrown.
\<close>

definition extractContent :: "runtime \<Rightarrow> jsval \<Rightarrow> jsval + string" where
  "extractContent rt response =
     thenE (shapeTest rt response) (\<lambda>c.
       if truthy c then
         thenE (content_path response) (\<lambda>content.
           case content of
             JStr s \<Rightarrow> Inr (trim s)
           | _ \<Rightarrow> Inl (mkTypeError ''response.data.choices[0].message.content.trim is not a function''))
       else Inl (mkError ''Unexpected API response format''))"

text \<open>The \<open>try\<close> block of \<open>invokeOpenAICompatibleChat\<close>.\<close>

definition chatAttempt ::
  "runtime \<Rightarrow> env \<Rightarrow> post_fn \<Rightarrow> jsval \<Rightarrow> jsval \<Rightarrow> log_entry list \<times> (jsval + string)" where
  "chatAttempt rt e post messages options =
     (case createOpenAICompatibleClient e of
        Inl err \<Rightarrow> ([], Inl err)
      | Inr client \<Rightarrow>
          (case openAIPayload rt e messages options of
             Inl err \<Rightarrow> ([], Inl err)
           | Inr payload \<Rightarrow>
               ([(''debug'', ''Calling OpenAI compatible API with model: '' @
                    tmpl rt (case getprop payload ''model'' of Inr m \<Rightarrow> m | Inl _ \<Rightarrow> JUndefined))],
                case post client ''/chat/completions'' payload of
                  Reject err \<Rightarrow> Inl err
                | Resolve response \<Rightarrow> extractContent rt response)))"

text \<open>The \<open>catch\<close> block: every caught value is rethrown as a new \<open>Error\<close>.\<close>

definition chatCatch :: "runtime \<Rightarrow> env \<Rightarrow> jsval \<Rightarrow> jsval + string" where
  "chatCatch rt e error =
     thenE (getprop error ''response'') (\<lambda>resp.
       if truthy resp then
         thenE (getprop resp ''status'') (\<lambda>status.
         thenE (getprop resp ''data'') (\<lambda>data.
           Inl (mkError (''API error ('' @ tmpl rt status @ ''): '' @ tmpl rt (JSON_stringify rt data)))))
       else
         thenE (getprop error ''request'') (\<lambda>req.
           if truthy req then
             Inl (mkError (''Network error: No response received. Check your OPENAI_API_BASE_URL ('' @
                           env_text (OPENAI_API_BASE_URL e) @ '').''))
           else
             thenE (getprop error ''message'') (\<lambda>m.
               Inl (mkError (''Error setting up request: '' @ tmpl rt m)))))"

text \<open>The function, with its default \<open>options = {}\<close>: the \<open>try\<close> block, then the \<open>catch\<close>.\<close>

definition invokeOpenAICompatibleChat ::
  "runtime \<Rightarrow> env \<Rightarrow> post_fn \<Rightarrow> jsval \<Rightarrow> jsval \<Rightarrow> log_entry list \<times> (jsval + string)" where
  "invokeOpenAICompatibleChat rt e post messages options =
     (case chatAttempt rt e post messages (default_options options) of
        (lg, Inl err) \<Rightarrow> (lg, chatCatch rt e err)
      | (lg, Inr text) \<Rightarrow> (lg, Inr text))"

section \<open>handleOpenAICompatibleError\<close>

text \<open>
  \<open>error.message?.includes(x)\<close>: \<open>undefined\<close> when there is no message, the substring
  test on a string, the membership test on an array, and a TypeError on anything else.
\<close>

definition msg_includes :: "jsval \<Rightarrow> string \<Rightarrow> jsval + bool" where
  "msg_includes m x =
     (case m of
        JUndefined \<Rightarrow> Inr False
      | JNull \<Rightarrow> Inr False
      | JStr s \<Rightarrow> Inr (js_includes s x)
      | JArr xs \<Rightarrow> Inr (JStr x \<in> set xs)
      | _ \<Rightarrow> Inl (mkTypeError ''error.message?.includes is not a function''))"

definition handleOpenAICompatibleError :: "runtime \<Rightarrow> env \<Rightarrow> jsval \<Rightarrow> jsval + string" where
  "handleOpenAICompatibleError rt e error =
     thenE (getprop error ''message'') (\<lambda>m.
     thenE (msg_includes m ''Network error'') (\<lambda>net.
       if net then
         Inr (''Connection error: Unable to reach the AI service at '' @ env_text (OPENAI_API_BASE_URL e) @
              ''. Please check that your server is running and the URL is correct.'')
       else
     thenE (msg_includes m ''401'') (\<lambda>a1.
     thenE (if a1 then Inr True else msg_includes m ''403'') (\<lambda>auth.
       if auth then
         Inr ''Authentication error: The API key provided is invalid or missing. Please check your OPENAI_API_KEY.''
       else
     thenE (msg_includes m ''model'') (\<lambda>mdl.
       if mdl then
         Inr (''Model error: The requested model '' @ [CHR 0x27] @ env_text (MODEL e) @ [CHR 0x27] @
              '' may not be available. Please check that you have the correct model name.'')
       else
         Inr (''Error communicating with AI service: '' @ tmpl rt m))))))"


section \<open>The unified client\<close>

text \<open>The provider identifiers of \<open>AI_PROVIDER\<close>.\<close>

definition ANTHROPIC :: jsval where
  "ANTHROPIC = JStr ''anthropic''"

definition OPENAI_COMPATIBLE :: jsval where
  "OPENAI_COMPATIBLE = JStr ''openai_compatible''"

definition determineAIProvider :: "env \<Rightarrow> log_entry list \<times> jsval" where
  "determineAIProvider e =
     (if truthy (envval (OPENAI_API_BASE_URL e)) then
        ([(''info'', ''Using OpenAI compatible API at '' @ env_text (OPENAI_API_BASE_URL e))],
         OPENAI_COMPATIBLE)
      else if truthy (envval (ANTHROPIC_API_KEY e)) then
        ([(''info'', ''Using Anthropic API'')], ANTHROPIC)
      else
        ([(''warn'', ''No AI provider configuration found. Defaulting to OpenAI compatible API.'')],
         OPENAI_COMPATIBLE))"

text \<open>
  \<open>options.provider || process.env.AI_PROVIDER || determineAIProvider()\<close>, given the
  value of \<open>options.provider\<close>; \<open>determineAIProvider\<close> runs (and logs) only when the
  two before it are falsy.
\<close>

definition resolveProvider :: "env \<Rightarrow> jsval \<Rightarrow> log_entry list \<times> jsval" where
  "resolveProvider e override =
     (if truthy override then ([], override)
      else if truthy (envval (AI_PROVIDER e)) then ([], envval (AI_PROVIDER e))
      else determineAIProvider e)"

definition createAnthropicClient :: "env \<Rightarrow> jsval + anthropic_client" where
  "createAnthropicClient e =
     (if \<not> truthy (envval (ANTHROPIC_API_KEY e))
      then Inl (mkError ''ANTHROPIC_API_KEY environment variable is required for using Anthropic API.'')
      else Inr \<lparr> apiKey = env_text (ANTHROPIC_API_KEY e),
                 defaultHeaders = [(''anthropic-beta'', ''output-128k-2025-02-19'')] \<rparr>)"

text \<open>\<open>messages.find((m) => m.role === 'system')\<close>.\<close>

fun findSystem :: "jsval list \<Rightarrow> jsval + jsval" where
  "findSystem [] = Inr JUndefined"
| "findSystem (m # ms) =
     thenE (getprop m ''role'') (\<lambda>r. if r = JStr ''system'' then Inr m else findSystem ms)"

text \<open>\<open>messages.filter((m) => m.role !== 'system')\<close>.\<close>

fun filterNonSystem :: "jsval list \<Rightarrow> jsval + jsval list" where
  "filterNonSystem [] = Inr []"
| "filterNonSystem (m # ms) =
     thenE (getprop m ''role'') (\<lambda>r.
     thenE (filterNonSystem ms) (\<lambda>rest.
       Inr (if r \<noteq> JStr ''system'' then m # rest else rest)))"

text \<open>\<open>.map((m) => ({role: m.role === 'user' ? 'human' : 'assistant', content: m.content}))\<close>.\<close>

fun mapNative :: "jsval list \<Rightarrow> jsval + jsval list" where
  "mapNative [] = Inr []"
| "mapNative (m # ms) =
     thenE (getprop m ''role'') (\<lambda>r.
     thenE (getprop m ''content'') (\<lambda>c.
     thenE (mapNative ms) (\<lambda>rest.
       Inr (JObj [(''role'', JStr (if r = JStr ''user'' then ''human'' else ''assistant'')),
                  (''content'', c)] # rest))))"

text \<open>
  Lines 294 to 323 of \<open>invokeAIModel\<close>: the pair \<open>(systemPrompt, promptMessages)\<close>.
  \<open>promptMessages\<close> stays \<open>undefined\<close> when no branch assigns it.
\<close>

definition anthropicPrompt :: "jsval \<Rightarrow> jsval + (jsval \<times> jsval)" where
  "anthropicPrompt messages =
     (case messages of
        JStr s \<Rightarrow> Inr (JStr [], messages)
      | JArr xs \<Rightarrow>
          thenE (case xs of [] \<Rightarrow> Inr (JBool False)
                 | m0 # _ \<Rightarrow> both_props m0 ''role'' ''content'') (\<lambda>c.
            if truthy c then
              thenE (findSystem xs) (\<lambda>systemMsg.
              thenE (if truthy systemMsg then getprop systemMsg ''content'' else Inr (JStr [])) (\<lambda>sp.
              thenE (filterNonSystem xs) (\<lambda>kept.
              thenE (mapNative kept) (\<lambda>pm. Inr (sp, JArr pm)))))
            else Inr (JStr [], messages))
      | _ \<Rightarrow>
          thenE (getprop messages ''system'') (\<lambda>sys.
          thenE (if truthy sys then Inr sys else getprop messages ''messages'') (\<lambda>c.
            if truthy c then
              thenE (getprop messages ''messages'') (\<lambda>mm. Inr (js_or sys (JStr []), mm))
            else Inr (JStr [], JUndefined))))"

text \<open>The argument of \<open>client.messages.create\<close>, lines 326 to 335.\<close>

definition anthropicParams :: "runtime \<Rightarrow> env \<Rightarrow> jsval \<Rightarrow> jsval \<Rightarrow> jsval + jsval" where
  "anthropicParams rt e messages options =
     thenE (anthropicPrompt messages) (\<lambda>(systemPrompt, promptMessages).
     thenE (getprop options ''model'') (\<lambda>m.
     thenE (getprop options ''maxTokens'') (\<lambda>mt.
     thenE (getprop options ''temperature'') (\<lambda>t.
       Inr (JObj [(''model'', js_or (js_or m (envval (MODEL e))) (JStr ''claude-3-7-sonnet-20250219'')),
                  (''max_tokens'', js_or mt (parseInt rt (env_or (MAX_TOKENS e) ''64000''))),
                  (''temperature'', js_or t (parseFloat rt (env_or (TEMPERATURE e) ''0.2''))),
                  (''system'', systemPrompt),
                  (''messages'', promptMessages)])))))"

text \<open>The Anthropic branch of the \<open>try\<close> block, up to \<open>response.content[0].text\<close>.\<close>

definition anthropicAttempt ::
  "runtime \<Rightarrow> env \<Rightarrow> create_fn \<Rightarrow> jsval \<Rightarrow> jsval \<Rightarrow> jsval + jsval" where
  "anthropicAttempt rt e create messages options =
     thenE (createAnthropicClient e) (\<lambda>client.
     thenE (anthropicParams rt e messages options) (\<lambda>params.
       case create client params of
         Reject err \<Rightarrow> Inl err
       | Resolve response \<Rightarrow>
           thenE (getprop response ''content'') (\<lambda>blocks.
           thenE (index0 blocks) (\<lambda>b. getprop b ''text''))))"

text \<open>
  \<open>invokeAIModel\<close>, with its default \<open>options = {}\<close>. The provider is resolved before
  the \<open>try\<close>; a throw inside the
  \<open>try\<close> is caught, turned into a message (by \<open>handleOpenAICompatibleError\<close> on the
  OpenAI-compatible path, by a prefix otherwise), logged and rethrown as a new \<open>Error\<close>.
\<close>

definition invokeAIModel ::
  "runtime \<Rightarrow> env \<Rightarrow> post_fn \<Rightarrow> create_fn \<Rightarrow> jsval \<Rightarrow> jsval \<Rightarrow> log_entry list \<times> (jsval + jsval)" where
  "invokeAIModel rt e post create messages options_arg =
     (let options = default_options options_arg in
      case getprop options ''provider'' of
        Inl err \<Rightarrow> ([], Inl err)
      | Inr override \<Rightarrow>
          (case resolveProvider e override of (lg0, provider) \<Rightarrow>
             if provider = OPENAI_COMPATIBLE then
               (case (case convertToOpenAIMessages rt messages of
                        Inl err \<Rightarrow> ([], Inl err)
                      | Inr openAIMessages \<Rightarrow> invokeOpenAICompatibleChat rt e post openAIMessages options) of
                  (lg1, Inr text) \<Rightarrow> (lg0 @ lg1, Inr (JStr text))
                | (lg1, Inl err) \<Rightarrow>
                    (case handleOpenAICompatibleError rt e err of
                       Inl err2 \<Rightarrow> (lg0 @ lg1, Inl err2)
                     | Inr errorMessage \<Rightarrow>
                         (lg0 @ lg1 @ [(''error'', errorMessage)], Inl (mkError errorMessage))))
             else
               (case (if provider = ANTHROPIC then anthropicAttempt rt e create messages options
                      else Inl (mkError (''Unsupported AI provider: '' @ tmpl rt provider))) of
                  Inr text \<Rightarrow> (lg0, Inr text)
                | Inl err \<Rightarrow>
                    (case getprop err ''message'' of
                       Inl err2 \<Rightarrow> (lg0, Inl err2)
                     | Inr m \<Rightarrow>
                         (lg0 @ [(''error'', ''Anthropic API error: '' @ tmpl rt m)],
                          Inl (mkError (''Anthropic API error: '' @ tmpl rt m)))))))"

section \<open>A concrete engine\<close>

text \<open>
  For evaluating the model on concrete inputs: an engine that agrees with Node.js on
  strings of decimal digits (\<open>parseInt\<close>, \<open>parseFloat\<close>, \<open>ToNumber\<close>), on the literal
  \<open>0.2\<close> (whose double is \<open>3602879701896397 / 2^54\<close>), and, for \<open>JSON.stringify\<close>, on
  \<open>null\<close>, booleans, integers, strings of printable characters, and arrays and objects of
  these. Outside that fragment its answers are placeholders.
\<close>

definition all_digits :: "string \<Rightarrow> bool" where
  "all_digits s = (s \<noteq> [] \<and> list_all (\<lambda>c. c \<in> set ''0123456789'') s)"

fun digits_value :: "nat \<Rightarrow> string \<Rightarrow> nat" where
  "digits_value acc [] = acc"
| "digits_value acc (c # cs) = digits_value (10 * acc + (of_char c - 48)) cs"

definition node_parse :: "string \<Rightarrow> jsval" where
  "node_parse s =
     (if all_digits s then JNum (of_nat (digits_value 0 s))
      else if s = ''0.2'' then JNum (3602879701896397 / 18014398509481984)
      else JNaN)"

definition json_quote :: "string \<Rightarrow> string" where
  "json_quote s =
     [CHR 0x22] @
     concat (map (\<lambda>c. if c = CHR 0x22 then [CHR 0x5C, CHR 0x22]
                       else if c = CHR 0x5C then [CHR 0x5C, CHR 0x5C]
                       else [c]) s) @
     [CHR 0x22]"

fun join_with :: "string \<Rightarrow> string list \<Rightarrow> string" where
  "join_with sep [] = []"
| "join_with sep [x] = x"
| "join_with sep (x # y # ys) = x @ sep @ join_with sep (y # ys)"

definition int_text :: "rat \<Rightarrow> string" where
  "int_text r = (if r < 0 then ''-'' else []) @ nat_digits (nat \<bar>\<lfloor>r\<rfloor>\<bar>)"

fun node_json :: "jsval \<Rightarrow> string option" where
  "node_json JUndefined = None"
| "node_json JNull = Some ''null''"
| "node_json (JBool b) = Some (if b then ''true'' else ''false'')"
| "node_json (JNum r) = Some (int_text r)"
| "node_json JNaN = Some ''null''"
| "node_json (JStr s) = Some (json_quote s)"
| "node_json (JArr xs) =
     Some (''['' @ join_with '','' (map (\<lambda>x. case node_json x of None \<Rightarrow> ''null'' | Some t \<Rightarrow> t) xs) @ '']'')"
| "node_json (JObj kvs) =
     Some (''{'' @ join_with '',''
             (concat (map (\<lambda>kv. case node_json (snd kv) of None \<Rightarrow> []
                                 | Some t \<Rightarrow> [json_quote (fst kv) @ '':'' @ t]) kvs)) @ ''}'')"

definition node :: runtime where
  "node = \<lparr> parseInt = node_parse,
            parseFloat = node_parse,
            JSON_stringify = (\<lambda>v. case node_json v of None \<Rightarrow> JUndefined | Some t \<Rightarrow> JStr t),
            ToString = (\<lambda>v. case v of JObj _ \<Rightarrow> ''[object Object]'' | _ \<Rightarrow> []),
            ToNumber = (\<lambda>v. case v of JStr s \<Rightarrow> node_parse s | _ \<Rightarrow> JNaN) \<rparr>"


section \<open>Vocabulary of the specification\<close>

text \<open>
  The specification speaks of neutral messages: a role out of System, User and Assistant
  and a text. As a JavaScript value a neutral message is \<open>{role, content}\<close> with the role
  spelled \<open>system\<close>, \<open>user\<close> or \<open>assistant\<close>.
\<close>

datatype Role = System | User | Assistant

type_synonym neutral = "Role \<times> string"

fun role_name :: "Role \<Rightarrow> string" where
  "role_name System = ''system''"
| "role_name User = ''user''"
| "role_name Assistant = ''assistant''"

definition neutral_js :: "neutral \<Rightarrow> jsval" where
  "neutral_js m = message (role_name (fst m)) (JStr (snd m))"

text \<open>
  The specification's system field for a neutral list: the texts of all System messages,
  concatenated.
\<close>

definition merged_system :: "neutral list \<Rightarrow> string" where
  "merged_system ms = concat (map snd (filter (\<lambda>m. fst m = System) ms))"

text \<open>What the Anthropic branch does instead: the text of the first System message.\<close>

definition first_system :: "neutral list \<Rightarrow> string" where
  "first_system ms = (case find (\<lambda>m. fst m = System) ms of None \<Rightarrow> [] | Some m \<Rightarrow> snd m)"

definition native_turn :: "neutral \<Rightarrow> jsval" where
  "native_turn m = message (if fst m = User then ''human'' else ''assistant'') (JStr (snd m))"

text \<open>
  The specification's condition on a response: \<open>choices[0].message.content\<close> is there
  and non-empty.
\<close>

definition has_content :: "jsval \<Rightarrow> bool" where
  "has_content response = (case content_path response of Inl _ \<Rightarrow> False | Inr v \<Rightarrow> truthy v)"

text \<open>An environment with no variable set, as a base for concrete configurations.\<close>

definition env0 :: env where
  "env0 = \<lparr> OPENAI_API_BASE_URL = None, OPENAI_API_KEY = None, MODEL = None, MAX_TOKENS = None,
            TEMPERATURE = None, ANTHROPIC_API_KEY = None, AI_PROVIDER = None \<rparr>"

text \<open>A local endpoint with a model name, and a well-formed response around a content.\<close>

definition local_env :: env where
  "local_env = env0\<lparr>OPENAI_API_BASE_URL := Some ''http://localhost:11434/v1'', MODEL := Some ''llama3''\<rparr>"


text \<open>
  An error value as \<open>new Error\<close> and the engine make them: a name and a text message,
  nothing else.
\<close>

definition plain_error :: "jsval \<Rightarrow> string \<Rightarrow> bool" where
  "plain_error err m = (\<exists>n. err = JObj [(''name'', JStr n), (''message'', JStr m)])"

text \<open>The rejection axios produces for an HTTP 429 answer with the given body.\<close>

definition failure429 :: "jsval \<Rightarrow> jsval" where
  "failure429 body =
     JObj [(''name'', JStr ''AxiosError''),
           (''message'', JStr ''Request failed with status code 429''),
           (''response'', JObj [(''status'', JNum 429), (''data'', body)])]"

section \<open>The message normalizer\<close>





text \<open>
  C6. The normalizer is not total: on \<open>null\<close> the read of \<open>messages.role\<close> throws a
  TypeError before the stringifying fallback is reached, for every engine.
\<close>

theorem null_prompt_throws:
  "convertToOpenAIMessages rt JNull = Inl (cannot_read ''null'' ''role'')"
  by (simp add: convertToOpenAIMessages_def both_props_def getprop_def thenE_def)

lemma convertInner_turns:
  assumes "\<forall>t \<in> set ts. fst t \<noteq> [] \<and> snd t \<noteq> []"
  shows "convertInner (map (\<lambda>t. message (fst t) (JStr (snd t))) ts) =
           Inr (map (\<lambda>t. message (if fst t = ''human'' then ''user'' else fst t) (JStr (snd t))) ts)"
  using assms
  by (induction ts) (auto simp: both_props_def getprop_def thenE_def message_def)

text \<open>
  With both a non-empty \<open>system\<close> string and a \<open>messages\<close> array of turns the branch is
  taken: the system message comes first, then the turns in order, \<open>human\<close> renamed.
\<close>

lemma system_and_messages_converted:
  assumes "sys \<noteq> []" and "\<forall>t \<in> set ts. fst t \<noteq> [] \<and> snd t \<noteq> []"
  shows "convertToOpenAIMessages rt
           (JObj [(''system'', JStr sys), (''messages'', JArr (map (\<lambda>t. message (fst t) (JStr (snd t))) ts))]) =
         Inr (JArr (message ''system'' (JStr sys) #
                    map (\<lambda>t. message (if fst t = ''human'' then ''user'' else fst t) (JStr (snd t))) ts))"
  using assms(1)
  by (simp add: convertToOpenAIMessages_def both_props_def getprop_def thenE_def
      convertInner_turns [OF assms(2)])

lemma system_and_messages_example:
  "convertToOpenAIMessages rt
     (JObj [(''system'', JStr ''S''), (''messages'', JArr [message ''user'' (JStr ''hi'')])]) =
   Inr (JArr [message ''system'' (JStr ''S''), message ''user'' (JStr ''hi'')])"
  using system_and_messages_converted [of "''S''" "[(''user'', ''hi'')]" rt] by simp

text \<open>
  C5. An object with only a \<open>messages\<close> field, with only a \<open>system\<close> field, or with an
  empty \<open>system\<close> string does not take the system/messages branch (its guard is
  \<open>messages.system && messages.messages\<close>): the whole object is stringified into a single
  \<open>user\<close> message. So the result for \<open>{messages: [{role: "user", content: "hi"}]}\<close> is
  not the turn \<open>hi\<close>, and the result for \<open>{system: "S"}\<close> is not the system message
  \<open>S\<close>.
\<close>

theorem lone_field_is_stringified:
  "convertToOpenAIMessages rt (JObj [(''messages'', JArr [message ''user'' (JStr ''hi'')])]) =
     Inr (JArr [message ''user''
                  (JSON_stringify rt (JObj [(''messages'', JArr [message ''user'' (JStr ''hi'')])]))])
   \<and> convertToOpenAIMessages node (JObj [(''messages'', JArr [message ''user'' (JStr ''hi'')])]) \<noteq>
     Inr (JArr [message ''user'' (JStr ''hi'')])
   \<and> convertToOpenAIMessages rt (JObj [(''system'', JStr ''S'')]) =
     Inr (JArr [message ''user'' (JSON_stringify rt (JObj [(''system'', JStr ''S'')]))])
   \<and> convertToOpenAIMessages rt (JObj [(''system'', JStr ''S'')]) \<noteq>
     Inr (JArr [message ''system'' (JStr ''S'')])
   \<and> convertToOpenAIMessages rt
        (JObj [(''system'', JStr []), (''messages'', JArr [message ''user'' (JStr ''hi'')])]) =
     Inr (JArr [message ''user''
                  (JSON_stringify rt
                     (JObj [(''system'', JStr []), (''messages'', JArr [message ''user'' (JStr ''hi'')])]))])"
  by (simp add: convertToOpenAIMessages_def both_props_def getprop_def thenE_def message_def
      node_def json_quote_def)

text \<open>
  C7. For the bare string \<open>hello\<close> the OpenAI-compatible path builds the single turn
  \<open>{role: "user", content: "hello"}\<close>, but the Anthropic path puts the bare string itself
  into the \<open>messages\<close> field of its request (with an empty system prompt): no turn is built.
\<close>

theorem bare_string_anthropic_request:
  "\<exists>p. anthropicParams rt e (JStr ''hello'') (JObj kvs) = Inr p
       \<and> getprop p ''messages'' = Inr (JStr ''hello'')
       \<and> getprop p ''messages'' \<noteq> Inr (JArr [message ''human'' (JStr ''hello'')])
       \<and> getprop p ''messages'' \<noteq> Inr (JArr [message ''user'' (JStr ''hello'')])
       \<and> getprop p ''system'' = Inr (JStr [])
       \<and> convertToOpenAIMessages rt (JStr ''hello'') = Inr (JArr [message ''user'' (JStr ''hello'')])"
  by (simp add: anthropicParams_def anthropicPrompt_def convertToOpenAIMessages_def getprop_def
      thenE_def split: option.splits)


section \<open>Provider selection\<close>

text \<open>
  C4. Provider selection takes the first that is present of: the explicit
  \<open>options.provider\<close>; the pinned \<open>AI_PROVIDER\<close> of the configuration; the
  OpenAI-compatible provider when a base URL is configured, whether or not an Anthropic
  key is set too; Anthropic when its key is configured; and otherwise the
  OpenAI-compatible provider again, with a warning in the log. It always returns a
  provider: nothing fails at selection time.
\<close>

theorem provider_precedence:
  "(truthy override \<longrightarrow> resolveProvider e override = ([], override))
   \<and> (\<not> truthy override \<and> truthy (envval (AI_PROVIDER e)) \<longrightarrow>
        resolveProvider e override = ([], envval (AI_PROVIDER e)))
   \<and> (\<not> truthy override \<and> \<not> truthy (envval (AI_PROVIDER e))
        \<and> truthy (envval (OPENAI_API_BASE_URL e)) \<longrightarrow>
        snd (resolveProvider e override) = OPENAI_COMPATIBLE)
   \<and> (\<not> truthy override \<and> \<not> truthy (envval (AI_PROVIDER e))
        \<and> \<not> truthy (envval (OPENAI_API_BASE_URL e)) \<and> truthy (envval (ANTHROPIC_API_KEY e)) \<longrightarrow>
        snd (resolveProvider e override) = ANTHROPIC)
   \<and> (\<not> truthy override \<and> \<not> truthy (envval (AI_PROVIDER e))
        \<and> \<not> truthy (envval (OPENAI_API_BASE_URL e)) \<and> \<not> truthy (envval (ANTHROPIC_API_KEY e)) \<longrightarrow>
        resolveProvider e override =
          ([(''warn'', ''No AI provider configuration found. Defaulting to OpenAI compatible API.'')],
           OPENAI_COMPATIBLE))"
  by (simp add: resolveProvider_def determineAIProvider_def)

theorem provider_precedence_witness:
  "resolveProvider (env0\<lparr>OPENAI_API_BASE_URL := Some ''http://localhost:11434/v1''\<rparr>) ANTHROPIC = ([], ANTHROPIC)
   \<and> resolveProvider (env0\<lparr>AI_PROVIDER := Some ''anthropic'', OPENAI_API_BASE_URL := Some ''http://localhost:11434/v1''\<rparr>) JUndefined
       = ([], ANTHROPIC)
   \<and> snd (resolveProvider (env0\<lparr>OPENAI_API_BASE_URL := Some ''http://localhost:11434/v1'', ANTHROPIC_API_KEY := Some ''sk-ant''\<rparr>) JUndefined)
       = OPENAI_COMPATIBLE
   \<and> snd (resolveProvider (env0\<lparr>ANTHROPIC_API_KEY := Some ''sk-ant''\<rparr>) JUndefined) = ANTHROPIC
   \<and> resolveProvider env0 JUndefined =
       ([(''warn'', ''No AI provider configuration found. Defaulting to OpenAI compatible API.'')],
        OPENAI_COMPATIBLE)"
  using provider_precedence [of ANTHROPIC "env0\<lparr>OPENAI_API_BASE_URL := Some ''http://localhost:11434/v1''\<rparr>"]
    provider_precedence [of JUndefined "env0\<lparr>AI_PROVIDER := Some ''anthropic'', OPENAI_API_BASE_URL := Some ''http://localhost:11434/v1''\<rparr>"]
    provider_precedence [of JUndefined "env0\<lparr>OPENAI_API_BASE_URL := Some ''http://localhost:11434/v1'', ANTHROPIC_API_KEY := Some ''sk-ant''\<rparr>"]
    provider_precedence [of JUndefined "env0\<lparr>ANTHROPIC_API_KEY := Some ''sk-ant''\<rparr>"]
    provider_precedence [of JUndefined env0]
  by (simp add: env0_def envval_def ANTHROPIC_def)

section \<open>Request defaults\<close>

lemma getprop_same_receiver:
  assumes "getprop v k = Inr x"
  shows "\<exists>y. getprop v k' = Inr y"
  using assms by (cases v) (auto simp: getprop_def split: option.splits)





section \<open>System messages on the Anthropic branch\<close>

lemma getprop_neutral_role: "getprop (neutral_js m) ''role'' = Inr (JStr (role_name (fst m)))"
  by (simp add: neutral_js_def message_def getprop_def)

lemma getprop_neutral_content: "getprop (neutral_js m) ''content'' = Inr (JStr (snd m))"
  by (simp add: neutral_js_def message_def getprop_def)

lemma truthy_neutral: "truthy (neutral_js m)"
  by (simp add: neutral_js_def message_def)

lemma role_name_system: "(role_name r = ''system'') = (r = System)"
  by (cases r) auto

lemma role_name_user: "(role_name r = ''user'') = (r = User)"
  by (cases r) auto

lemma findSystem_neutral:
  "findSystem (map neutral_js ms) =
     Inr (case find (\<lambda>m. fst m = System) ms of None \<Rightarrow> JUndefined | Some m \<Rightarrow> neutral_js m)"
  by (induction ms) (simp_all add: getprop_neutral_role thenE_def role_name_system)

lemma filterNonSystem_neutral:
  "filterNonSystem (map neutral_js ms) = Inr (map neutral_js (filter (\<lambda>m. fst m \<noteq> System) ms))"
  by (induction ms) (simp_all add: getprop_neutral_role thenE_def role_name_system)

lemma mapNative_neutral:
  "mapNative (map neutral_js ms) = Inr (map native_turn ms)"
  by (induction ms)
     (simp_all add: getprop_neutral_role getprop_neutral_content thenE_def role_name_user
        native_turn_def message_def)

lemma both_props_neutral:
  "both_props (neutral_js m) ''role'' ''content'' = Inr (JStr (snd m))"
  by (cases "fst m") (simp_all add: both_props_def getprop_neutral_role getprop_neutral_content thenE_def)

text \<open>
  C1 (amended). For a list of neutral messages that is empty or whose first message has a
  non-empty text, the Anthropic branch sets the system prompt to the text of the FIRST
  System message (the empty string when there is none), removes every System message from
  the turns, and emits the remaining turns in their original order, \<open>user\<close> renamed to
  \<open>human\<close> and every other role to \<open>assistant\<close>. The texts of further System messages
  are dropped, not concatenated.
\<close>

theorem first_system_message_extracted:
  assumes "ms = [] \<or> snd (hd ms) \<noteq> []"
  shows "anthropicPrompt (JArr (map neutral_js ms)) =
           Inr (JStr (first_system ms), JArr (map native_turn (filter (\<lambda>m. fst m \<noteq> System) ms)))"
proof (cases ms)
  case Nil
  then show ?thesis by (simp add: anthropicPrompt_def thenE_def first_system_def)
next
  case (Cons m rest)
  then have ne: "snd m \<noteq> []" using assms by simp
  have sys: "thenE (findSystem (map neutral_js ms))
               (\<lambda>systemMsg. thenE (if truthy systemMsg then getprop systemMsg ''content'' else Inr (JStr [])) f)
             = f (JStr (first_system ms))" for f
    by (simp add: findSystem_neutral thenE_def first_system_def getprop_neutral_content
        truthy_neutral split: option.splits)
  have "anthropicPrompt (JArr (map neutral_js ms)) =
          thenE (findSystem (map neutral_js ms)) (\<lambda>systemMsg.
          thenE (if truthy systemMsg then getprop systemMsg ''content'' else Inr (JStr [])) (\<lambda>sp.
          thenE (filterNonSystem (map neutral_js ms)) (\<lambda>kept.
          thenE (mapNative kept) (\<lambda>pm. Inr (sp, JArr pm)))))"
    using Cons ne by (simp add: anthropicPrompt_def both_props_neutral thenE_def)
  also have "\<dots> = Inr (JStr (first_system ms), JArr (map native_turn (filter (\<lambda>m. fst m \<noteq> System) ms)))"
    by (simp only: sys) (simp add: filterNonSystem_neutral mapNative_neutral thenE_def)
  finally show ?thesis .
qed

theorem first_system_message_extracted_witness:
  "anthropicPrompt (JArr (map neutral_js [(System, ''A''), (User, ''hi''), (System, ''B''), (Assistant, ''ok'')])) =
     Inr (JStr ''A'', JArr [message ''human'' (JStr ''hi''), message ''assistant'' (JStr ''ok'')])"
  using first_system_message_extracted [of "[(System, ''A''), (User, ''hi''), (System, ''B''), (Assistant, ''ok'')]"]
  by (simp add: first_system_def native_turn_def)

theorem system_messages_not_concatenated:
  "anthropicPrompt (JArr (map neutral_js [(System, ''A''), (System, ''B''), (User, ''hi'')])) =
     Inr (JStr ''A'', JArr [message ''human'' (JStr ''hi'')])
   \<and> merged_system [(System, ''A''), (System, ''B''), (User, ''hi'')] = ''AB''
   \<and> JStr ''A'' \<noteq> JStr (merged_system [(System, ''A''), (System, ''B''), (User, ''hi'')])"
  by (simp add: anthropicPrompt_def neutral_js_def message_def both_props_def getprop_def thenE_def
      merged_system_def)

section \<open>The text returned by the OpenAI-compatible client\<close>




text \<open>When the condition of lines 77 to 81 holds, its value is the content itself.\<close>

lemma shapeTest_truthy:
  assumes "shapeTest rt response = Inr c" and "truthy c"
  shows "content_path response = Inr c"
proof -
  from assms obtain data where d: "getprop response ''data'' = Inr data" "truthy data"
    by (auto simp: shapeTest_def thenE_def split: sum.splits if_splits)
  from assms d obtain choices where c: "getprop data ''choices'' = Inr choices" "truthy choices"
    by (auto simp: shapeTest_def thenE_def split: sum.splits if_splits)
  from assms d c obtain len where l: "getprop choices ''length'' = Inr len" "gt_zero rt len"
    by (auto simp: shapeTest_def thenE_def split: sum.splits if_splits)
  from assms d c l obtain c0 where c0: "index0 choices = Inr c0"
    by (auto simp: shapeTest_def thenE_def split: sum.splits if_splits)
  from assms d c l c0 obtain msg where m: "getprop c0 ''message'' = Inr msg" "truthy msg"
    by (auto simp: shapeTest_def thenE_def split: sum.splits if_splits)
  from assms d c l c0 m have "getprop msg ''content'' = Inr c"
    by (auto simp: shapeTest_def thenE_def split: sum.splits if_splits)
  then show ?thesis
    using d c c0 m by (simp add: content_path_def thenE_def)
qed

lemma extractContent_Inr:
  assumes "extractContent rt response = Inr r"
  shows "\<exists>c. content_path response = Inr (JStr c) \<and> c \<noteq> [] \<and> r = trim c"
proof -
  from assms obtain v where v: "shapeTest rt response = Inr v" "truthy v"
    by (auto simp: extractContent_def thenE_def split: sum.splits if_splits)
  have cp: "content_path response = Inr v"
    using shapeTest_truthy [OF v] .
  from assms v cp obtain s where s: "v = JStr s" "r = trim s"
    by (auto simp: extractContent_def thenE_def split: jsval.splits)
  have "s \<noteq> []" using v(2) s(1) by simp
  then show ?thesis using cp s by blast
qed








section \<open>Malformed responses\<close>

lemma plain_mkError: "plain_error (mkError m) m"
  by (simp add: plain_error_def mkError_def)

lemma ex_plain_mkError: "\<exists>m. plain_error (mkError x) m"
  using plain_mkError by blast

lemma ex_plain_mkTypeError: "\<exists>m. plain_error (mkTypeError x) m"
  by (simp add: plain_error_def mkTypeError_def)

lemma plain_cannot_read: "\<exists>m. plain_error (cannot_read w k) m"
  by (simp add: cannot_read_def ex_plain_mkTypeError)

lemma getprop_Inl: "getprop v k = Inl err \<Longrightarrow> \<exists>m. plain_error err m"
  by (cases v) (auto simp: getprop_def plain_cannot_read split: option.splits)

lemma index0_Inl: "index0 v = Inl err \<Longrightarrow> \<exists>m. plain_error err m"
  by (cases v) (auto simp: index0_def plain_cannot_read split: option.splits)

lemma chatCatch_plain:
  "plain_error err m \<Longrightarrow> chatCatch rt e err = Inl (mkError (''Error setting up request: '' @ m))"
  by (auto simp: plain_error_def chatCatch_def getprop_def thenE_def tmpl_def)

lemma shapeTest_Inl:
  assumes "shapeTest rt response = Inl err"
  shows "\<exists>m. plain_error err m"
  using assms
  by (auto simp: shapeTest_def thenE_def split: sum.splits if_splits dest: getprop_Inl index0_Inl)

lemma extractContent_has_content:
  "extractContent rt response = Inr r \<Longrightarrow> has_content response"
  using extractContent_Inr [of rt response r] by (auto simp: has_content_def)

text \<open>Without a content, a condition that evaluates is falsy, and the format error is thrown.\<close>

lemma extractContent_shape_fails:
  assumes "\<not> has_content response" and "shapeTest rt response = Inr v"
  shows "extractContent rt response = Inl (mkError ''Unexpected API response format'')"
proof -
  have "\<not> truthy v"
  proof
    assume t: "truthy v"
    from shapeTest_truthy [OF assms(2) t] have "has_content response"
      using t by (simp add: has_content_def)
    with assms(1) show False by simp
  qed
  then show ?thesis using assms(2) by (simp add: extractContent_def thenE_def)
qed

lemma extractContent_shape_throws:
  assumes "shapeTest rt response = Inl err"
  shows "extractContent rt response = Inl err"
  using assms by (simp add: extractContent_def thenE_def)

lemma extractContent_Inl:
  assumes "\<not> has_content response"
  shows "\<exists>err m. extractContent rt response = Inl err \<and> plain_error err m"
proof (cases "shapeTest rt response")
  case (Inl err)
  then show ?thesis using extractContent_shape_throws [OF Inl] shapeTest_Inl [OF Inl] by blast
next
  case (Inr v)
  then show ?thesis using extractContent_shape_fails [OF assms Inr] plain_mkError by blast
qed

lemma client_Inl:
  "createOpenAICompatibleClient e = Inl err \<Longrightarrow> \<exists>m. plain_error err m"
  by (auto simp: createOpenAICompatibleClient_def getOpenAICompatibleConfig_def thenE_def
      ex_plain_mkError split: if_splits)

lemma payload_Inl:
  "openAIPayload rt e messages options = Inl err \<Longrightarrow> \<exists>m. plain_error err m"
  by (auto simp: openAIPayload_def thenE_def split: sum.splits dest: getprop_Inl)

lemma getprop_default_options:
  assumes "options \<noteq> JNull"
  shows "\<exists>v. getprop (default_options options) k = Inr v"
  using assms by (cases options) (auto simp: default_options_def getprop_def split: option.splits)

lemma openAIPayload_total:
  assumes "options \<noteq> JNull"
  shows "\<exists>p. openAIPayload rt e ms (default_options options) = Inr p"
proof -
  obtain a where a: "getprop (default_options options) ''model'' = Inr a"
    using getprop_default_options [OF assms] by blast
  obtain b where b: "getprop (default_options options) ''maxTokens'' = Inr b"
    using getprop_default_options [OF assms] by blast
  obtain c where c: "getprop (default_options options) ''temperature'' = Inr c"
    using getprop_default_options [OF assms] by blast
  show ?thesis by (simp add: openAIPayload_def thenE_def a b c)
qed

text \<open>With the endpoint configured and usable options, the request is sent.\<close>

lemma chat_sent:
  assumes "truthy (envval (OPENAI_API_BASE_URL e))" and "options \<noteq> JNull"
  shows "\<exists>lg client payload. chatAttempt rt e post ms (default_options options) =
           (lg, case post client ''/chat/completions'' payload of
                  Reject err \<Rightarrow> Inl err
                | Resolve response \<Rightarrow> extractContent rt response)"
proof -
  obtain p where p: "openAIPayload rt e ms (default_options options) = Inr p"
    using openAIPayload_total [OF assms(2)] by blast
  obtain c where c: "createOpenAICompatibleClient e = Inr c"
    using assms(1)
    by (auto simp: createOpenAICompatibleClient_def getOpenAICompatibleConfig_def thenE_def)
  show ?thesis
    unfolding chatAttempt_def p c by (simp only: sum.case) blast
qed

text \<open>
  C2 (amended). When the server answers with a response in which
  \<open>choices[0].message.content\<close> is missing or empty, the OpenAI-compatible client never
  returns a string: it throws a plain \<open>Error\<close> (there is no MalformedResponseError
  type) whose message is \<open>Error setting up request: \<close> followed by the text of the
  inner failure. With the endpoint configured and options other than \<open>null\<close>, that text
  is \<open>Unexpected API response format\<close> whenever the condition of lines 77 to 81
  evaluates, and the message of the TypeError when a read inside the condition throws.
\<close>

theorem malformed_response_fails:
  assumes "\<not> has_content response"
  shows "(\<exists>lg txt. invokeOpenAICompatibleChat rt e (\<lambda>client path payload. Resolve response) messages options
                    = (lg, Inl (mkError (''Error setting up request: '' @ txt))))
       \<and> (truthy (envval (OPENAI_API_BASE_URL e)) \<and> options \<noteq> JNull \<longrightarrow>
            (\<forall>v. shapeTest rt response = Inr v \<longrightarrow>
               snd (invokeOpenAICompatibleChat rt e (\<lambda>client path payload. Resolve response) messages options)
                 = Inl (mkError (''Error setting up request: '' @ ''Unexpected API response format'')))
          \<and> (\<forall>err m. shapeTest rt response = Inl err \<and> plain_error err m \<longrightarrow>
               snd (invokeOpenAICompatibleChat rt e (\<lambda>client path payload. Resolve response) messages options)
                 = Inl (mkError (''Error setting up request: '' @ m))))"
proof (intro conjI impI allI)
  let ?post = "\<lambda>client path payload. Resolve response"
  obtain lg res where att: "chatAttempt rt e ?post messages (default_options options) = (lg, res)"
    by (cases "chatAttempt rt e ?post messages (default_options options)")
  obtain xerr xm where x: "extractContent rt response = Inl xerr" "plain_error xerr xm"
    using extractContent_Inl [OF assms] by blast
  have "\<exists>err m. res = Inl err \<and> plain_error err m"
  proof (cases "createOpenAICompatibleClient e")
    case (Inl err)
    then show ?thesis using att client_Inl [OF Inl] by (auto simp: chatAttempt_def)
  next
    case client: (Inr client)
    show ?thesis
    proof (cases "openAIPayload rt e messages (default_options options)")
      case (Inl err)
      then show ?thesis using att client payload_Inl [OF Inl] by (auto simp: chatAttempt_def)
    next
      case (Inr payload)
      then have "res = extractContent rt response"
        using att client by (auto simp: chatAttempt_def)
      then show ?thesis using x by blast
    qed
  qed
  then obtain err m where "res = Inl err" "plain_error err m" by blast
  then show "\<exists>lg txt. invokeOpenAICompatibleChat rt e ?post messages options
                    = (lg, Inl (mkError (''Error setting up request: '' @ txt)))"
    using att by (auto simp: invokeOpenAICompatibleChat_def chatCatch_plain)
next
  fix v
  assume cfg: "truthy (envval (OPENAI_API_BASE_URL e)) \<and> options \<noteq> JNull"
    and sh: "shapeTest rt response = Inr v"
  let ?post = "\<lambda>client path payload. Resolve response"
  obtain lg where att: "chatAttempt rt e ?post messages (default_options options) = (lg, extractContent rt response)"
    using chat_sent [of e options rt ?post messages] cfg by auto
  have ex: "extractContent rt response = Inl (mkError ''Unexpected API response format'')"
    using extractContent_shape_fails [OF assms sh] .
  have "snd (invokeOpenAICompatibleChat rt e ?post messages options)
          = chatCatch rt e (mkError ''Unexpected API response format'')"
    by (simp add: invokeOpenAICompatibleChat_def att ex)
  also have "\<dots> = Inl (mkError (''Error setting up request: '' @ ''Unexpected API response format''))"
    by (rule chatCatch_plain [OF plain_mkError])
  finally show "snd (invokeOpenAICompatibleChat rt e ?post messages options)
                 = Inl (mkError (''Error setting up request: '' @ ''Unexpected API response format''))" .
next
  fix err m
  assume cfg: "truthy (envval (OPENAI_API_BASE_URL e)) \<and> options \<noteq> JNull"
    and sh: "shapeTest rt response = Inl err \<and> plain_error err m"
  let ?post = "\<lambda>client path payload. Resolve response"
  obtain lg where att: "chatAttempt rt e ?post messages (default_options options) = (lg, extractContent rt response)"
    using chat_sent [of e options rt ?post messages] cfg by auto
  have ex: "extractContent rt response = Inl err"
    using extractContent_shape_throws sh by blast
  have "snd (invokeOpenAICompatibleChat rt e ?post messages options) = chatCatch rt e err"
    by (simp add: invokeOpenAICompatibleChat_def att ex)
  also have "\<dots> = Inl (mkError (''Error setting up request: '' @ m))"
    using chatCatch_plain sh by blast
  finally show "snd (invokeOpenAICompatibleChat rt e ?post messages options)
                 = Inl (mkError (''Error setting up request: '' @ m))" .
qed


lemma no_content_empty_body: "\<not> has_content (JObj [(''data'', JObj [])])"
  by (simp add: has_content_def content_path_def thenE_def getprop_def index0_def cannot_read_def)

lemma shape_empty_body: "shapeTest node (JObj [(''data'', JObj [])]) = Inr JUndefined"
  by (simp add: shapeTest_def thenE_def getprop_def)

lemma no_content_null_choice:
  "\<not> has_content (JObj [(''data'', JObj [(''choices'', JArr [JNull])])])"
  by (simp add: has_content_def content_path_def thenE_def getprop_def index0_def)

lemma shape_null_choice:
  "shapeTest node (JObj [(''data'', JObj [(''choices'', JArr [JNull])])]) =
     Inl (cannot_read ''null'' ''message'')"
  by (simp add: shapeTest_def thenE_def getprop_def index0_def gt_zero_def)

lemma plain_null_choice:
  "plain_error (cannot_read ''null'' ''message'')
     (''Cannot read properties of null (reading '' @ [CHR 0x27] @ ''message'' @ [CHR 0x27] @ '')'')"
  by (simp add: plain_error_def cannot_read_def mkTypeError_def)

lemma local_env_url: "truthy (envval (OPENAI_API_BASE_URL local_env))"
  by (simp add: local_env_def env0_def envval_def)

theorem malformed_response_fails_witness:
  "\<not> has_content (JObj [(''data'', JObj [])])
   \<and> snd (invokeOpenAICompatibleChat node local_env (\<lambda>client path payload. Resolve (JObj [(''data'', JObj [])]))
         (JArr [message ''user'' (JStr ''hello'')]) JUndefined)
       = Inl (mkError (''Error setting up request: '' @ ''Unexpected API response format''))
   \<and> \<not> has_content (JObj [(''data'', JObj [(''choices'', JArr [JNull])])])
   \<and> snd (invokeOpenAICompatibleChat node local_env
              (\<lambda>client path payload. Resolve (JObj [(''data'', JObj [(''choices'', JArr [JNull])])]))
         (JArr [message ''user'' (JStr ''hello'')]) (JObj [(''temperature'', JNum 0)]))
       = Inl (mkError (''Error setting up request: '' @
                       (''Cannot read properties of null (reading '' @ [CHR 0x27] @ ''message'' @ [CHR 0x27] @ '')'')))"
proof -
  have u: "JUndefined \<noteq> JNull" by simp
  have o: "JObj [(''temperature'', JNum 0)] \<noteq> JNull" by simp
  note a = malformed_response_fails [OF no_content_empty_body, THEN conjunct2, rule_format,
      OF conjI [OF local_env_url u], THEN conjunct1, rule_format, OF shape_empty_body]
  note b = malformed_response_fails [OF no_content_null_choice, THEN conjunct2, rule_format,
      OF conjI [OF local_env_url o], THEN conjunct2, rule_format,
      OF conjI [OF shape_null_choice plain_null_choice]]
  show ?thesis
    by (intro conjI) (rule no_content_empty_body, rule a, rule no_content_null_choice, rule b)
qed

lemma no_choices_sample:
  "invokeOpenAICompatibleChat node local_env (\<lambda>client path payload. Resolve (JObj [(''data'', JObj [])]))
      (JArr [message ''user'' (JStr ''hello'')]) (JObj []) =
    ([(''debug'', ''Calling OpenAI compatible API with model: llama3'')],
     Inl (mkError ''Error setting up request: Unexpected API response format''))"
  by (simp add: invokeOpenAICompatibleChat_def chatAttempt_def createOpenAICompatibleClient_def
      getOpenAICompatibleConfig_def openAIPayload_def extractContent_def chatCatch_def local_env_def env0_def
      default_options_def shape_empty_body
      envval_def env_or_def env_text_def thenE_def getprop_def js_or_def tmpl_def mkError_def)

theorem malformed_response_is_generic_error:
  "\<not> has_content (JObj [(''data'', JObj [])])
   \<and> snd (invokeOpenAICompatibleChat node local_env (\<lambda>client path payload. Resolve (JObj [(''data'', JObj [])]))
      (JArr [message ''user'' (JStr ''hello'')]) (JObj []))
       = Inl (JObj [(''name'', JStr ''Error''),
                    (''message'', JStr ''Error setting up request: Unexpected API response format'')])
   \<and> JStr ''Error'' \<noteq> JStr ''MalformedResponseError''"
  using no_content_empty_body by (simp add: no_choices_sample) (simp add: mkError_def)

section \<open>Failures with HTTP status 429\<close>

lemma tmpl_429: "tmpl rt (JNum 429) = ''429''"
  by (simp add: tmpl_def nat_digits.simps)

lemma chatCatch_429:
  assumes "getprop err ''response'' = Inr resp" and "truthy resp"
    and "getprop resp ''status'' = Inr (JNum 429)" and "getprop resp ''data'' = Inr d"
  shows "chatCatch rt e err = Inl (mkError (''API error (429): '' @ tmpl rt (JSON_stringify rt d)))"
  using assms by (simp add: chatCatch_def thenE_def tmpl_429)

text \<open>
  The message the classifier gives for \<open>API error (429): \<close> followed by a body text: the
  prefix holds none of the four markers, so the body alone decides.
\<close>

lemma classify_429:
  "handleOpenAICompatibleError rt e (mkError (''API error (429): '' @ body)) =
     Inr (if js_includes body ''Network error'' then
            ''Connection error: Unable to reach the AI service at '' @ env_text (OPENAI_API_BASE_URL e) @
            ''. Please check that your server is running and the URL is correct.''
          else if js_includes body ''401'' \<or> js_includes body ''403'' then
            ''Authentication error: The API key provided is invalid or missing. Please check your OPENAI_API_KEY.''
          else if js_includes body ''model'' then
            ''Model error: The requested model '' @ [CHR 0x27] @ env_text (MODEL e) @ [CHR 0x27] @
            '' may not be available. Please check that you have the correct model name.''
          else ''Error communicating with AI service: API error (429): '' @ body)"
proof -
  have m: "getprop (mkError (''API error (429): '' @ body)) ''message'' = Inr (JStr (''API error (429): '' @ body))"
    by (simp add: mkError_def getprop_def)
  show ?thesis
    unfolding handleOpenAICompatibleError_def m
    by (simp add: thenE_def msg_includes_def tmpl_def)
qed

lemma default_options_idem: "default_options (default_options options) = default_options options"
  by (cases options) (simp_all add: default_options_def)

lemma default_options_not_null:
  assumes "getprop (default_options options) k = Inr v"
  shows "default_options options \<noteq> JNull"
  using assms by (auto simp: getprop_def)

lemma chat_rejected:
  assumes "getprop (default_options options) k = Inr x" and "truthy (envval (OPENAI_API_BASE_URL e))"
  shows "\<exists>lg. invokeOpenAICompatibleChat rt e (\<lambda>client path payload. Reject err) ms (default_options options)
              = (lg, chatCatch rt e err)"
proof -
  obtain lg where "chatAttempt rt e (\<lambda>client path payload. Reject err) ms (default_options options) = (lg, Inl err)"
    using chat_sent [OF assms(2) default_options_not_null [OF assms(1)],
        of rt "\<lambda>client path payload. Reject err" ms]
    by (auto simp: default_options_idem)
  then show ?thesis
    by (simp add: invokeOpenAICompatibleChat_def default_options_idem)
qed

lemma invoke_rethrows:
  assumes "getprop (default_options options) ''provider'' = Inr ov"
    and "resolveProvider e ov = (lg0, OPENAI_COMPATIBLE)"
    and "convertToOpenAIMessages rt messages = Inr ms"
    and "invokeOpenAICompatibleChat rt e post ms (default_options options) = (lg, Inl x)"
  shows "invokeAIModel rt e post create messages options =
          (case handleOpenAICompatibleError rt e x of
             Inl err2 \<Rightarrow> (lg0 @ lg, Inl err2)
           | Inr errorMessage \<Rightarrow> (lg0 @ lg @ [(''error'', errorMessage)], Inl (mkError errorMessage)))"
  using assms by (simp add: invokeAIModel_def)

text \<open>
  C3 (amended). There is no RateLimited kind and no \<open>cause\<close> field. A rejection with
  HTTP status 429 from the OpenAI-compatible client makes \<open>invokeAIModel\<close> throw a plain
  \<open>Error\<close>. Its message is decided by the JSON text of the response body: the
  connection error when that text contains \<open>Network error\<close>, else the authentication
  error when it contains \<open>401\<close> or \<open>403\<close>, else the model error when it contains
  \<open>model\<close>, and otherwise
  \<open>Error communicating with AI service: API error (429): \<close> followed by that text, so that
  only in this last case the status survives, as text. A rejection on the Anthropic path
  is not classified at all: the thrown \<open>Error\<close> carries \<open>Anthropic API error: \<close>
  followed by the message of the rejection.
\<close>

theorem rate_limit_surfaces_as_text:
  assumes "getprop (default_options options) ''provider'' = Inr ov"
  shows "(snd (resolveProvider e ov) = OPENAI_COMPATIBLE
          \<and> convertToOpenAIMessages rt messages = Inr ms
          \<and> truthy (envval (OPENAI_API_BASE_URL e))
          \<and> getprop err ''response'' = Inr resp \<and> truthy resp
          \<and> getprop resp ''status'' = Inr (JNum 429) \<and> getprop resp ''data'' = Inr d
          \<longrightarrow>
          (\<exists>thrown. snd (invokeAIModel rt e (\<lambda>client path payload. Reject err) create messages options) = Inl thrown
             \<and> plain_error thrown
                  (if js_includes (tmpl rt (JSON_stringify rt d)) ''Network error'' then
                     ''Connection error: Unable to reach the AI service at '' @ env_text (OPENAI_API_BASE_URL e) @
                     ''. Please check that your server is running and the URL is correct.''
                   else if js_includes (tmpl rt (JSON_stringify rt d)) ''401''
                           \<or> js_includes (tmpl rt (JSON_stringify rt d)) ''403'' then
                     ''Authentication error: The API key provided is invalid or missing. Please check your OPENAI_API_KEY.''
                   else if js_includes (tmpl rt (JSON_stringify rt d)) ''model'' then
                     ''Model error: The requested model '' @ [CHR 0x27] @ env_text (MODEL e) @ [CHR 0x27] @
                     '' may not be available. Please check that you have the correct model name.''
                   else ''Error communicating with AI service: API error (429): '' @ tmpl rt (JSON_stringify rt d))
             \<and> getprop thrown ''cause'' = Inr JUndefined))
       \<and> (snd (resolveProvider e ov) = ANTHROPIC
          \<and> truthy (envval (ANTHROPIC_API_KEY e))
          \<and> anthropicPrompt messages = Inr sp
          \<and> getprop err ''message'' = Inr (JStr m)
          \<longrightarrow>
          (\<exists>thrown. snd (invokeAIModel rt e post (\<lambda>client params. Reject err) messages options) = Inl thrown
             \<and> plain_error thrown (''Anthropic API error: '' @ m)
             \<and> getprop thrown ''cause'' = Inr JUndefined))"
proof (intro conjI impI)
  assume h: "snd (resolveProvider e ov) = OPENAI_COMPATIBLE
          \<and> convertToOpenAIMessages rt messages = Inr ms
          \<and> truthy (envval (OPENAI_API_BASE_URL e))
          \<and> getprop err ''response'' = Inr resp \<and> truthy resp
          \<and> getprop resp ''status'' = Inr (JNum 429) \<and> getprop resp ''data'' = Inr d"
  let ?body = "tmpl rt (JSON_stringify rt d)"
  let ?text = "if js_includes ?body ''Network error'' then
                     ''Connection error: Unable to reach the AI service at '' @ env_text (OPENAI_API_BASE_URL e) @
                     ''. Please check that your server is running and the URL is correct.''
                   else if js_includes ?body ''401'' \<or> js_includes ?body ''403'' then
                     ''Authentication error: The API key provided is invalid or missing. Please check your OPENAI_API_KEY.''
                   else if js_includes ?body ''model'' then
                     ''Model error: The requested model '' @ [CHR 0x27] @ env_text (MODEL e) @ [CHR 0x27] @
                     '' may not be available. Please check that you have the correct model name.''
                   else ''Error communicating with AI service: API error (429): '' @ ?body"
  obtain lg0 where sel: "resolveProvider e ov = (lg0, OPENAI_COMPATIBLE)"
    using h by (cases "resolveProvider e ov") auto
  obtain lg where chat: "invokeOpenAICompatibleChat rt e (\<lambda>client path payload. Reject err) ms (default_options options)
              = (lg, chatCatch rt e err)"
    using chat_rejected [OF assms] h by blast
  have caught: "chatCatch rt e err = Inl (mkError (''API error (429): '' @ ?body))"
    using h by (simp add: chatCatch_429)
  have conv: "convertToOpenAIMessages rt messages = Inr ms" using h by simp
  have "snd (invokeAIModel rt e (\<lambda>client path payload. Reject err) create messages options) =
          Inl (mkError ?text)"
    unfolding invoke_rethrows [OF assms sel conv chat [unfolded caught]] classify_429 by simp
  moreover have "plain_error (mkError ?text) ?text" by (rule plain_mkError)
  moreover have "getprop (mkError ?text) ''cause'' = Inr JUndefined"
    by (simp add: mkError_def getprop_def)
  ultimately show "\<exists>thrown. snd (invokeAIModel rt e (\<lambda>client path payload. Reject err) create messages options) = Inl thrown
             \<and> plain_error thrown ?text
             \<and> getprop thrown ''cause'' = Inr JUndefined"
    by blast
next
  assume h: "snd (resolveProvider e ov) = ANTHROPIC
          \<and> truthy (envval (ANTHROPIC_API_KEY e))
          \<and> anthropicPrompt messages = Inr sp
          \<and> getprop err ''message'' = Inr (JStr m)"
  obtain lg0 where sel: "resolveProvider e ov = (lg0, ANTHROPIC)"
    using h by (cases "resolveProvider e ov") auto
  obtain a where a: "getprop (default_options options) ''model'' = Inr a"
    using getprop_same_receiver [OF assms] by blast
  obtain b where b: "getprop (default_options options) ''maxTokens'' = Inr b"
    using getprop_same_receiver [OF assms] by blast
  obtain c where c: "getprop (default_options options) ''temperature'' = Inr c"
    using getprop_same_receiver [OF assms] by blast
  have att: "anthropicAttempt rt e (\<lambda>client params. Reject err) messages (default_options options) = Inl err"
    using h by (simp add: anthropicAttempt_def createAnthropicClient_def anthropicParams_def
        thenE_def a b c split: prod.splits)
  have "snd (invokeAIModel rt e post (\<lambda>client params. Reject err) messages options) =
          Inl (mkError (''Anthropic API error: '' @ m))"
    using h by (simp add: invokeAIModel_def assms sel att tmpl_def ANTHROPIC_def OPENAI_COMPATIBLE_def)
  then show "\<exists>thrown. snd (invokeAIModel rt e post (\<lambda>client params. Reject err) messages options) = Inl thrown
             \<and> plain_error thrown (''Anthropic API error: '' @ m)
             \<and> getprop thrown ''cause'' = Inr JUndefined"
    by (simp add: plain_mkError) (simp add: mkError_def getprop_def)
qed


lemma resolve_local: "resolveProvider local_env JUndefined =
    ([(''info'', ''Using OpenAI compatible API at http://localhost:11434/v1'')], OPENAI_COMPATIBLE)"
  by (simp add: resolveProvider_def determineAIProvider_def local_env_def env0_def envval_def env_text_def)

lemma resolve_anthropic: "resolveProvider (env0\<lparr>ANTHROPIC_API_KEY := Some ''sk-ant''\<rparr>) JUndefined =
    ([(''info'', ''Using Anthropic API'')], ANTHROPIC)"
  by (simp add: resolveProvider_def determineAIProvider_def env0_def envval_def)

lemma failure429_reads:
  "getprop (failure429 d) ''response'' = Inr (JObj [(''status'', JNum 429), (''data'', d)])"
  "getprop (JObj [(''status'', JNum 429), (''data'', d)]) ''status'' = Inr (JNum 429)"
  "getprop (JObj [(''status'', JNum 429), (''data'', d)]) ''data'' = Inr d"
  "getprop (failure429 d) ''message'' = Inr (JStr ''Request failed with status code 429'')"
  by (simp_all add: failure429_def getprop_def)

lemma body_texts:
  "tmpl node (JSON_stringify node (JObj [])) = ''{}''"
  "tmpl node (JSON_stringify node (JNum 401)) = ''401''"
  "tmpl node (JSON_stringify node (JStr ''Network error'')) = [CHR 0x22] @ ''Network error'' @ [CHR 0x22]"
  "tmpl node (JSON_stringify node (JStr ''model overloaded'')) = [CHR 0x22] @ ''model overloaded'' @ [CHR 0x22]"
  by (simp_all add: node_def tmpl_def json_quote_def int_text_def nat_digits.simps)

lemma hello_converted:
  "convertToOpenAIMessages node (JStr ''hello'') = Inr (JArr [message ''user'' (JStr ''hello'')])"
  by (simp add: convertToOpenAIMessages_def)

lemma options_omitted: "getprop (default_options JUndefined) ''provider'' = Inr JUndefined"
  by (simp add: default_options_def getprop_def)

lemma options_given:
  "getprop (default_options (JObj [(''temperature'', JNum 0)])) ''provider'' = Inr JUndefined"
  by (simp add: default_options_def getprop_def)

theorem rate_limit_surfaces_as_text_witness:
  "(\<exists>thrown. snd (invokeAIModel node local_env (\<lambda>client path payload. Reject (failure429 (JObj [])))
                    (\<lambda>client params. Reject JNull) (JStr ''hello'') JUndefined) = Inl thrown
       \<and> plain_error thrown ''Error communicating with AI service: API error (429): {}''
       \<and> getprop thrown ''cause'' = Inr JUndefined)
   \<and> (\<exists>thrown. snd (invokeAIModel node local_env
                    (\<lambda>client path payload. Reject (failure429 (JStr ''model overloaded'')))
                    (\<lambda>client params. Reject JNull) (JStr ''hello'') (JObj [(''temperature'', JNum 0)])) = Inl thrown
       \<and> plain_error thrown (''Model error: The requested model '' @ [CHR 0x27] @ ''llama3'' @ [CHR 0x27] @
                              '' may not be available. Please check that you have the correct model name.'')
       \<and> getprop thrown ''cause'' = Inr JUndefined)
   \<and> (\<exists>thrown. snd (invokeAIModel node local_env (\<lambda>client path payload. Reject (failure429 (JNum 401)))
                    (\<lambda>client params. Reject JNull) (JStr ''hello'') JUndefined) = Inl thrown
       \<and> plain_error thrown ''Authentication error: The API key provided is invalid or missing. Please check your OPENAI_API_KEY.''
       \<and> getprop thrown ''cause'' = Inr JUndefined)
   \<and> (\<exists>thrown. snd (invokeAIModel node local_env
                    (\<lambda>client path payload. Reject (failure429 (JStr ''Network error'')))
                    (\<lambda>client params. Reject JNull) (JStr ''hello'') JUndefined) = Inl thrown
       \<and> plain_error thrown ''Connection error: Unable to reach the AI service at http://localhost:11434/v1. Please check that your server is running and the URL is correct.''
       \<and> getprop thrown ''cause'' = Inr JUndefined)
   \<and> (\<exists>thrown. snd (invokeAIModel node (env0\<lparr>ANTHROPIC_API_KEY := Some ''sk-ant''\<rparr>)
                    (\<lambda>client path payload. Reject JNull)
                    (\<lambda>client params. Reject (failure429 (JObj []))) (JStr ''hello'') JUndefined) = Inl thrown
       \<and> plain_error thrown ''Anthropic API error: Request failed with status code 429''
       \<and> getprop thrown ''cause'' = Inr JUndefined)"
proof -
  have pr: "anthropicPrompt (JStr ''hello'') = Inr (JStr [], JStr ''hello'')"
    by (simp add: anthropicPrompt_def)
  have envs: "env_text (OPENAI_API_BASE_URL local_env) = ''http://localhost:11434/v1''"
    "env_text (MODEL local_env) = ''llama3''"
    by (simp_all add: local_env_def env0_def env_text_def)
  have a: "\<exists>thrown. snd (invokeAIModel node local_env (\<lambda>client path payload. Reject (failure429 (JObj [])))
                    (\<lambda>client params. Reject JNull) (JStr ''hello'') JUndefined) = Inl thrown
       \<and> plain_error thrown ''Error communicating with AI service: API error (429): {}''
       \<and> getprop thrown ''cause'' = Inr JUndefined"
    using rate_limit_surfaces_as_text [where options = JUndefined and ov = JUndefined and e = local_env
          and rt = node and messages = "JStr ''hello''"
          and ms = "JArr [message ''user'' (JStr ''hello'')]" and err = "failure429 (JObj [])"
          and resp = "JObj [(''status'', JNum 429), (''data'', JObj [])]" and d = "JObj []"
          and create = "\<lambda>client params. Reject JNull", OF options_omitted, THEN conjunct1]
    by (simp add: resolve_local hello_converted local_env_url failure429_reads body_texts envs)
  have b: "\<exists>thrown. snd (invokeAIModel node local_env
                    (\<lambda>client path payload. Reject (failure429 (JStr ''model overloaded'')))
                    (\<lambda>client params. Reject JNull) (JStr ''hello'') (JObj [(''temperature'', JNum 0)])) = Inl thrown
       \<and> plain_error thrown (''Model error: The requested model '' @ [CHR 0x27] @ ''llama3'' @ [CHR 0x27] @
                              '' may not be available. Please check that you have the correct model name.'')
       \<and> getprop thrown ''cause'' = Inr JUndefined"
    using rate_limit_surfaces_as_text [where options = "JObj [(''temperature'', JNum 0)]" and ov = JUndefined
          and e = local_env and rt = node and messages = "JStr ''hello''"
          and ms = "JArr [message ''user'' (JStr ''hello'')]" and err = "failure429 (JStr ''model overloaded'')"
          and resp = "JObj [(''status'', JNum 429), (''data'', JStr ''model overloaded'')]"
          and d = "JStr ''model overloaded''"
          and create = "\<lambda>client params. Reject JNull", OF options_given, THEN conjunct1]
    by (simp add: resolve_local hello_converted local_env_url failure429_reads body_texts envs)
  have c: "\<exists>thrown. snd (invokeAIModel node local_env (\<lambda>client path payload. Reject (failure429 (JNum 401)))
                    (\<lambda>client params. Reject JNull) (JStr ''hello'') JUndefined) = Inl thrown
       \<and> plain_error thrown ''Authentication error: The API key provided is invalid or missing. Please check your OPENAI_API_KEY.''
       \<and> getprop thrown ''cause'' = Inr JUndefined"
    using rate_limit_surfaces_as_text [where options = JUndefined and ov = JUndefined and e = local_env
          and rt = node and messages = "JStr ''hello''"
          and ms = "JArr [message ''user'' (JStr ''hello'')]" and err = "failure429 (JNum 401)"
          and resp = "JObj [(''status'', JNum 429), (''data'', JNum 401)]" and d = "JNum 401"
          and create = "\<lambda>client params. Reject JNull", OF options_omitted, THEN conjunct1]
    by (simp add: resolve_local hello_converted local_env_url failure429_reads body_texts envs)
  have d: "\<exists>thrown. snd (invokeAIModel node local_env
                    (\<lambda>client path payload. Reject (failure429 (JStr ''Network error'')))
                    (\<lambda>client params. Reject JNull) (JStr ''hello'') JUndefined) = Inl thrown
       \<and> plain_error thrown ''Connection error: Unable to reach the AI service at http://localhost:11434/v1. Please check that your server is running and the URL is correct.''
       \<and> getprop thrown ''cause'' = Inr JUndefined"
    using rate_limit_surfaces_as_text [where options = JUndefined and ov = JUndefined and e = local_env
          and rt = node and messages = "JStr ''hello''"
          and ms = "JArr [message ''user'' (JStr ''hello'')]" and err = "failure429 (JStr ''Network error'')"
          and resp = "JObj [(''status'', JNum 429), (''data'', JStr ''Network error'')]"
          and d = "JStr ''Network error''"
          and create = "\<lambda>client params. Reject JNull", OF options_omitted, THEN conjunct1]
    by (simp add: resolve_local hello_converted local_env_url failure429_reads body_texts envs)
  have f: "\<exists>thrown. snd (invokeAIModel node (env0\<lparr>ANTHROPIC_API_KEY := Some ''sk-ant''\<rparr>)
                    (\<lambda>client path payload. Reject JNull)
                    (\<lambda>client params. Reject (failure429 (JObj []))) (JStr ''hello'') JUndefined) = Inl thrown
       \<and> plain_error thrown ''Anthropic API error: Request failed with status code 429''
       \<and> getprop thrown ''cause'' = Inr JUndefined"
    using rate_limit_surfaces_as_text [where options = JUndefined and ov = JUndefined
          and e = "env0\<lparr>ANTHROPIC_API_KEY := Some ''sk-ant''\<rparr>" and rt = node
          and messages = "JStr ''hello''" and err = "failure429 (JObj [])"
          and sp = "(JStr [], JStr ''hello'')" and m = "''Request failed with status code 429''"
          and post = "\<lambda>client path payload. Reject JNull", OF options_omitted, THEN conjunct2]
    by (simp add: resolve_anthropic pr failure429_reads envval_def)
  show ?thesis
    by (intro conjI) (rule a, rule b, rule c, rule d, rule f)
qed

theorem rate_limit_reported_as_model_error:
  "snd (invokeAIModel node local_env
          (\<lambda>client path payload.
             Reject (failure429 (JObj [(''error'', JObj [(''message'', JStr ''Rate limit reached for model llama3'')])])))
          (\<lambda>client params. Reject JNull) (JStr ''hello'') (JObj []))
     = Inl (mkError (''Model error: The requested model '' @ [CHR 0x27] @ ''llama3'' @ [CHR 0x27] @
                     '' may not be available. Please check that you have the correct model name.''))
   \<and> getprop (mkError (''Model error: The requested model '' @ [CHR 0x27] @ ''llama3'' @ [CHR 0x27] @
                     '' may not be available. Please check that you have the correct model name.''))
        ''cause'' = Inr JUndefined
   \<and> \<not> js_includes (''Model error: The requested model '' @ [CHR 0x27] @ ''llama3'' @ [CHR 0x27] @
                     '' may not be available. Please check that you have the correct model name.'') ''429''"
proof -
  have body: "tmpl node (JSON_stringify node (JObj [(''error'', JObj [(''message'', JStr ''Rate limit reached for model llama3'')])]))
      = ''{'' @ [CHR 0x22] @ ''error'' @ [CHR 0x22] @ '':{'' @ [CHR 0x22] @ ''message'' @ [CHR 0x22] @ '':''
         @ [CHR 0x22] @ ''Rate limit reached for model llama3'' @ [CHR 0x22] @ ''}}''"
    by (simp add: node_def tmpl_def json_quote_def)
  have caught: "chatCatch node local_env (failure429 (JObj [(''error'', JObj [(''message'', JStr ''Rate limit reached for model llama3'')])]))
      = Inl (mkError (''API error (429): {'' @ [CHR 0x22] @ ''error'' @ [CHR 0x22] @ '':{'' @ [CHR 0x22] @ ''message'' @ [CHR 0x22] @ '':''
         @ [CHR 0x22] @ ''Rate limit reached for model llama3'' @ [CHR 0x22] @ ''}}''))"
    by (simp add: chatCatch_def failure429_def getprop_def thenE_def tmpl_429 body)
  have cls: "handleOpenAICompatibleError node local_env
       (mkError (''API error (429): {'' @ [CHR 0x22] @ ''error'' @ [CHR 0x22] @ '':{'' @ [CHR 0x22] @ ''message'' @ [CHR 0x22] @ '':''
         @ [CHR 0x22] @ ''Rate limit reached for model llama3'' @ [CHR 0x22] @ ''}}''))
      = Inr (''Model error: The requested model '' @ [CHR 0x27] @ ''llama3'' @ [CHR 0x27] @
                     '' may not be available. Please check that you have the correct model name.'')"
    by (simp add: handleOpenAICompatibleError_def mkError_def getprop_def thenE_def msg_includes_def
        local_env_def env0_def env_text_def)
  have p: "getprop (default_options (JObj [])) ''provider'' = Inr JUndefined"
    by (simp add: default_options_def getprop_def)
  obtain lg where chat: "invokeOpenAICompatibleChat node local_env
          (\<lambda>client path payload.
             Reject (failure429 (JObj [(''error'', JObj [(''message'', JStr ''Rate limit reached for model llama3'')])])))
          (JArr [message ''user'' (JStr ''hello'')]) (default_options (JObj []))
      = (lg, chatCatch node local_env (failure429 (JObj [(''error'', JObj [(''message'', JStr ''Rate limit reached for model llama3'')])])))"
    using chat_rejected [OF p local_env_url] by blast
  have "snd (invokeAIModel node local_env
          (\<lambda>client path payload.
             Reject (failure429 (JObj [(''error'', JObj [(''message'', JStr ''Rate limit reached for model llama3'')])])))
          (\<lambda>client params. Reject JNull) (JStr ''hello'') (JObj []))
     = Inl (mkError (''Model error: The requested model '' @ [CHR 0x27] @ ''llama3'' @ [CHR 0x27] @
                     '' may not be available. Please check that you have the correct model name.''))"
    unfolding invoke_rethrows [OF p resolve_local hello_converted chat [unfolded caught]] cls by simp
  then show ?thesis by (simp add: mkError_def getprop_def)
qed

end
